theory Spec2Isabelle
  imports Complex_Main
begin

section \<open>JavaScript values\<close>

text \<open>
  The values the program handles at run time where its TypeScript types say \<open>unknown\<close> or
  \<open>any\<close>: the result of \<open>request.json()\<close> and what \<open>session.get\<close> returns. A number
  parsed from JSON is never NaN, so it is falsy exactly when it is zero. A function, which
  no JSON text yields but an object may inherit, is known by its name.
\<close>

datatype jsval =
    JUndefined
  | JNull
  | JBool bool
  | JNum rat
  | JStr string
  | JArr "jsval list"
  | JObj "(string \<times> jsval) list"
  | JFun string

datatype error = SyntaxError | TypeError | Error string

fun typeof :: "jsval \<Rightarrow> string" where
  "typeof JUndefined = ''undefined''"
| "typeof JNull = ''object''"
| "typeof (JBool b) = ''boolean''"
| "typeof (JNum n) = ''number''"
| "typeof (JStr s) = ''string''"
| "typeof (JArr xs) = ''object''"
| "typeof (JObj kvs) = ''object''"
| "typeof (JFun f) = ''function''"

fun truthy :: "jsval \<Rightarrow> bool" where
  "truthy JUndefined = False"
| "truthy JNull = False"
| "truthy (JBool b) = b"
| "truthy (JNum n) = (n \<noteq> 0)"
| "truthy (JStr s) = (s \<noteq> [])"
| "truthy (JArr xs) = True"
| "truthy (JObj kvs) = True"
| "truthy (JFun f) = True"

text \<open>
  \<open>JSON.parse\<close> keeps the last of several members with the same key, so a property
  is looked up from the end of the member list. Reading a property of \<open>null\<close> or
  \<open>undefined\<close> throws a TypeError; on every other value a property that is not there
  reads as \<open>undefined\<close>.
\<close>

fun get_prop :: "jsval \<Rightarrow> string \<Rightarrow> error + jsval" where
  "get_prop JUndefined k = Inl TypeError"
| "get_prop JNull k = Inl TypeError"
| "get_prop (JObj kvs) k =
     (case map_of (rev kvs) k of None \<Rightarrow> Inr JUndefined | Some v \<Rightarrow> Inr v)"
| "get_prop v k = Inr JUndefined"

text \<open>\<open>!x\<close> for an \<open>x\<close> of type \<open>string | null | undefined\<close>.\<close>

definition js_not :: "string option \<Rightarrow> bool" where
  "js_not x = (case x of None \<Rightarrow> True | Some s \<Rightarrow> s = [])"

section \<open>The theme and its type guard\<close>

datatype Theme = DARK | LIGHT

fun theme_value :: "Theme \<Rightarrow> string" where
  "theme_value DARK = ''dark''"
| "theme_value LIGHT = ''light''"

text \<open>\<open>Object.values(Theme)\<close>, in the order of the enum's declaration.\<close>

definition themes :: "jsval list" where
  "themes = [JStr (theme_value DARK), JStr (theme_value LIGHT)]"

text \<open>
  \<open>Array.prototype.includes\<close>. The array searched holds strings only, and on strings
  the comparison it uses (SameValueZero) is equality of the contents.
\<close>

primrec array_includes :: "jsval list \<Rightarrow> jsval \<Rightarrow> bool" where
  "array_includes [] v = False"
| "array_includes (x # xs) v = (x = v \<or> array_includes xs v)"

definition isTheme :: "jsval \<Rightarrow> bool" where
  "isTheme theme = (typeof theme = ''string'' \<and> array_includes themes theme)"

section \<open>Request helpers\<close>

text \<open>
  A request as the program reads it: the path of its URL
  (\<open>new URL(request.url).pathname\<close>), its headers through \<open>request.headers.get\<close>
  (\<open>None\<close> for \<open>null\<close>), and what \<open>request.json()\<close> resolves to (\<open>None\<close> when it
  rejects, which it does with a SyntaxError on a body that is empty or not JSON).
\<close>

record request =
  url_pathname :: string
  headers_get :: "string \<Rightarrow> string option"
  body_json :: "jsval option"

subsection \<open>withLocale\<close>

text \<open>
  \<open>String.prototype.split\<close> with a separator that matches exactly one character:
  every separator character ends a piece, and a string without one is a single piece
  (the empty string gives one empty piece).
\<close>

fun split_chars :: "(char \<Rightarrow> bool) \<Rightarrow> string \<Rightarrow> string list" where
  "split_chars sep [] = [[]]"
| "split_chars sep (c # cs) =
     (if sep c then [] # split_chars sep cs
      else (case split_chars sep cs of
              [] \<Rightarrow> [[c]]
            | w # ws \<Rightarrow> (c # w) # ws))"

text \<open>The character class \<open>[,;]\<close>.\<close>

definition comma_or_semicolon :: "char \<Rightarrow> bool" where
  "comma_or_semicolon c = (c = CHR '','' \<or> c = CHR '';'')"

definition startsWith :: "string \<Rightarrow> string \<Rightarrow> bool" where
  "startsWith str p = (take (length p) str = p)"

definition withLocale :: "request \<Rightarrow> string list" where
  "withLocale req =
     (let acceptedLanguages = headers_get req ''accepted-language''
      in if js_not acceptedLanguages then [''en-US'']
         else filter (\<lambda>str. \<not> startsWith str ''q'')
                (split_chars comma_or_semicolon (the acceptedLanguages)))"

subsection \<open>getFromEnv\<close>

text \<open>
  The source of the lookup is an object: its own properties, which the type of the
  parameter says hold a string or \<open>undefined\<close>, and the properties it inherits through
  its prototype chain, which hold any value. \<open>object[key]\<close> reads the own property when
  there is one, the inherited one otherwise, and \<open>undefined\<close> when there is neither.
\<close>

record js_object =
  own :: "string \<rightharpoonup> string option"
  inherited :: "string \<rightharpoonup> jsval"

definition object_get :: "js_object \<Rightarrow> string \<Rightarrow> jsval" where
  "object_get obj key =
     (case own obj key of
        Some (Some s) \<Rightarrow> JStr s
      | Some None \<Rightarrow> JUndefined
      | None \<Rightarrow> (case inherited obj key of Some v \<Rightarrow> v | None \<Rightarrow> JUndefined))"

text \<open>
  What an object literal and \<open>process.env\<close> inherit: the methods of \<open>Object.prototype\<close>,
  and under \<open>__proto__\<close> that prototype itself, an object without members to enumerate.
\<close>

definition object_prototype :: "string \<rightharpoonup> jsval" where
  "object_prototype =
     map_of
       [(''constructor'', JFun ''Object''),
        (''hasOwnProperty'', JFun ''hasOwnProperty''),
        (''isPrototypeOf'', JFun ''isPrototypeOf''),
        (''propertyIsEnumerable'', JFun ''propertyIsEnumerable''),
        (''toLocaleString'', JFun ''toLocaleString''),
        (''toString'', JFun ''toString''),
        (''valueOf'', JFun ''valueOf''),
        (''__defineGetter__'', JFun ''__defineGetter__''),
        (''__defineSetter__'', JFun ''__defineSetter__''),
        (''__lookupGetter__'', JFun ''__lookupGetter__''),
        (''__lookupSetter__'', JFun ''__lookupSetter__''),
        (''__proto__'', JObj [])]"

text \<open>
  \<open>process.env\<close> is the default when no source is passed. The function returns the
  value it read, whatever it is.
\<close>

definition getFromEnv :: "js_object \<Rightarrow> string \<Rightarrow> js_object option \<Rightarrow> error + jsval" where
  "getFromEnv process_env key object =
     (let obj = (case object of None \<Rightarrow> process_env | Some src \<Rightarrow> src);
          value = object_get obj key
      in if truthy value then Inr value
         else Inl (Error (key @ '' should be in environment'')))"

subsection \<open>mergeHeaders\<close>

text \<open>
  The three shapes of \<open>HeadersInit\<close>: a \<open>Headers\<close> instance (its guard and its header
  list, in order), an array of entries, and a plain object from names to values. The
  containers are objects that the caller may hold through several references, so they
  live in a store and \<open>mergeHeaders\<close> takes and returns an address. Every address of the
  store holds a container, as every reference of the program does.

  What the guard of a \<open>Headers\<close> instance does with a \<open>Set-Cookie\<close> header: an instance
  accepts it, or drops it without an error (the Fetch Standard has this for the headers
  of a response; a runtime that does not filter header names has no such instance), or
  is immutable and refuses every change.
\<close>

datatype headers_guard = Accepting | Dropping | Immutable

datatype headers_init =
    HeadersInstance headers_guard "(string \<times> string) list"
  | PairArray "string list list"
  | PlainObject "string \<rightharpoonup> string"

type_synonym store = "nat \<Rightarrow> headers_init"

text \<open>
  \<open>Headers.prototype.append\<close> after the Fetch Standard. The value is normalised: the
  bytes tab, line feed, carriage return and space are removed from both of its ends.
  A name that is no token, or a normalised value that holds a NUL, a line feed or a
  carriage return, is a TypeError, and so is any append to an immutable instance. A
  header that is accepted goes to the end of the list, under the spelling of the first
  header of the list that has the same name up to the case of letters.
\<close>

definition http_whitespace :: "char \<Rightarrow> bool" where
  "http_whitespace c = (c = CHR 0x09 \<or> c = CHR 0x0A \<or> c = CHR 0x0D \<or> c = CHR 0x20)"

definition normalize_value :: "string \<Rightarrow> string" where
  "normalize_value v = rev (dropWhile http_whitespace (rev (dropWhile http_whitespace v)))"

definition header_value :: "string \<Rightarrow> bool" where
  "header_value v = list_all (\<lambda>c. c \<noteq> CHR 0x00 \<and> c \<noteq> CHR 0x0A \<and> c \<noteq> CHR 0x0D) v"

definition tchar :: "char \<Rightarrow> bool" where
  "tchar c =
     (c \<in> set ''!#$%&'*+-.^_`|~0123456789abcdefghijklmnopqrstuvwxyzABCDEFGHIJKLMNOPQRSTUVWXYZ'')"

definition header_name :: "string \<Rightarrow> bool" where
  "header_name n = (n \<noteq> [] \<and> list_all tchar n)"

definition ascii_lower :: "char \<Rightarrow> char" where
  "ascii_lower c =
     (case map_of (zip ''ABCDEFGHIJKLMNOPQRSTUVWXYZ'' ''abcdefghijklmnopqrstuvwxyz'') c of
        None \<Rightarrow> c
      | Some l \<Rightarrow> l)"

definition header_list_name :: "(string \<times> string) list \<Rightarrow> string \<Rightarrow> string" where
  "header_list_name hs name =
     (case find (\<lambda>h. map ascii_lower (fst h) = map ascii_lower name) hs of
        None \<Rightarrow> name
      | Some h \<Rightarrow> fst h)"

definition headers_append ::
  "headers_guard \<Rightarrow> (string \<times> string) list \<Rightarrow> string \<Rightarrow> string
     \<Rightarrow> error + (string \<times> string) list" where
  "headers_append guard hs name v =
     (let v' = normalize_value v
      in if header_name name \<and> header_value v' then
           (case guard of
              Immutable \<Rightarrow> Inl TypeError
            | Dropping \<Rightarrow>
                if map ascii_lower name = ''set-cookie'' then Inr hs
                else Inr (hs @ [(header_list_name hs name, v')])
            | Accepting \<Rightarrow> Inr (hs @ [(header_list_name hs name, v')]))
         else Inl TypeError)"

text \<open>
  The result is the store after the call and what the call returns: the reference, or
  the error it throws. When \<open>headers.append\<close> throws, \<open>mergeHeaders\<close> throws with it and
  nothing has been written.
\<close>

definition mergeHeaders :: "store \<Rightarrow> nat \<Rightarrow> string option \<Rightarrow> store \<times> (error + nat)" where
  "mergeHeaders st headers value =
     (if js_not value then (st, Inr headers)
      else (case st headers of
              HeadersInstance guard hs \<Rightarrow>
                (case headers_append guard hs ''Set-Cookie'' (the value) of
                   Inl e \<Rightarrow> (st, Inl e)
                 | Inr hs' \<Rightarrow> (st(headers := HeadersInstance guard hs'), Inr headers))
            | PairArray ps \<Rightarrow>
                (st(headers := PairArray (ps @ [[''Set-Cookie'', the value]])), Inr headers)
            | PlainObject obj \<Rightarrow>
                (st(headers := PlainObject (obj(''Set-Cookie'' \<mapsto> the value))), Inr headers)))"

section \<open>The theme session\<close>

text \<open>
  The data of a session is a dictionary; \<open>session.get\<close> reads a key, \<open>undefined\<close> when
  it is not there, and \<open>session.set\<close> stores one.
\<close>

type_synonym session = "string \<rightharpoonup> jsval"

definition session_get :: "session \<Rightarrow> string \<Rightarrow> jsval" where
  "session_get s name = (case s name of None \<Rightarrow> JUndefined | Some v \<Rightarrow> v)"

definition session_set :: "session \<Rightarrow> string \<Rightarrow> jsval \<Rightarrow> session" where
  "session_set s name v = s(name \<mapsto> v)"

text \<open>
  What \<open>createCookieSessionStorage\<close> returns for the cookie \<open>__theme\<close> and the secrets
  given to \<open>initializeThemeSession\<close>: \<open>getSession\<close> decodes the \<open>Cookie\<close> header of a
  request (\<open>None\<close> when there is none) into a session, \<open>commitSession\<close> encodes a session
  into the value of a \<open>Set-Cookie\<close> header. Both belong to the framework and are
  parameters here.
\<close>

record session_storage =
  getSession :: "string option \<Rightarrow> session"
  commitSession :: "session \<Rightarrow> string"

text \<open>
  \<open>getThemeSession\<close> returns three closures over one session object. The state of
  that object is the session; each closure is a function of it.
\<close>

definition getThemeSession :: "session_storage \<Rightarrow> request \<Rightarrow> session" where
  "getThemeSession storage req = getSession storage (headers_get req ''Cookie'')"

definition getTheme :: "session \<Rightarrow> jsval" where
  "getTheme s = (let theme = session_get s ''theme'' in if isTheme theme then theme else JNull)"

definition setTheme :: "jsval \<Rightarrow> session \<Rightarrow> session" where
  "setTheme theme s = session_set s ''theme'' theme"

definition commit :: "session_storage \<Rightarrow> session \<Rightarrow> string" where
  "commit storage s = commitSession storage s"

subsection \<open>The set-theme action\<close>

text \<open>
  The response of \<open>redirect\<close>: status 302, the \<open>Location\<close> header, and the
  \<open>Set-Cookie\<close> header when the call passes one.
\<close>

record response =
  status :: nat
  location :: string
  set_cookie :: "string option"

definition redirect :: "string \<Rightarrow> string option \<Rightarrow> response" where
  "redirect url cookie = \<lparr>status = 302, location = url, set_cookie = cookie\<rparr>"

text \<open>\<open>data || data.theme\<close>: the right operand is read only when the left one is falsy.\<close>

definition data_or_theme :: "jsval \<Rightarrow> error + jsval" where
  "data_or_theme data = (if truthy data then Inr data else get_prop data ''theme'')"

definition setThemeAction :: "session_storage \<Rightarrow> request \<Rightarrow> error + response" where
  "setThemeAction storage req =
     (let redirectURL = url_pathname req
      in case body_json req of
           None \<Rightarrow> Inl SyntaxError
         | Some data \<Rightarrow>
             (case data_or_theme data of
                Inl e \<Rightarrow> Inl e
              | Inr d \<Rightarrow>
                  if \<not> truthy d then Inr (redirect redirectURL None)
                  else (case get_prop data ''theme'' of
                          Inl e \<Rightarrow> Inl e
                        | Inr theme \<Rightarrow>
                            if \<not> isTheme theme then Inr (redirect redirectURL None)
                            else (let themeSession = getThemeSession storage req;
                                      themeSession' = setTheme theme themeSession
                                  in Inr (redirect redirectURL
                                            (Some (commit storage themeSession')))))))"

text \<open>
  The visitor's side of the exchange, which is not part of the program: the next
  request presents the cookie that the response set, and the cookie sent before when
  the response set none.
\<close>

definition subsequent_request :: "request \<Rightarrow> response \<Rightarrow> request" where
  "subsequent_request req resp =
     (case set_cookie resp of
        None \<Rightarrow> req
      | Some c \<Rightarrow> req\<lparr>headers_get := (headers_get req)(''Cookie'' := Some c)\<rparr>)"

section \<open>The theme script of a server-rendered page\<close>

text \<open>
  \<open>useTheme\<close> reads the context: \<open>null\<close> outside a provider (\<open>None\<close>), and the pair of
  the current theme and its setter inside one, of which only the theme is modelled.
\<close>

definition useTheme :: "jsval option \<Rightarrow> error + jsval" where
  "useTheme ctx =
     (case ctx of
        None \<Rightarrow> Inl (Error ''useTheme should be used inside ThemeProvider'')
      | Some theme \<Rightarrow> Inr theme)"

definition preferDarkMQ :: string where
  "preferDarkMQ = ''(prefers-color-scheme: dark)''"

text \<open>\<open>JSON.stringify\<close> of a string without characters to escape: the string in double quotes.\<close>

definition json_stringify :: "string \<Rightarrow> string" where
  "json_stringify s = [CHR 0x22] @ s @ [CHR 0x22]"

definition ssrThemeScript :: string where
  "ssrThemeScript =
     ''\<newline>  ;(() => {\<newline>    const theme = window.matchMedia('' @ json_stringify preferDarkMQ
     @ '').matches ? 'dark' : 'light';\<newline>''
     @ ''    const documentCl = document.documentElement.classList;\<newline>''
     @ ''    documentCl.add(theme);\<newline>\<newline>''
     @ ''    const meta = document.querySelector('meta[name='' @ json_stringify ''color-scheme''
     @ '']');\<newline>\<newline>''
     @ ''    if (!meta) return;\<newline>\<newline>''
     @ ''    if (theme === 'dark') {\<newline>''
     @ ''      meta.content = 'dark light';\<newline>''
     @ ''    } else {\<newline>''
     @ ''      meta.content = 'light dark';\<newline>''
     @ ''    }\<newline>  })();\<newline>''"

datatype element = Meta string string | Script string

text \<open>A value of type \<open>Theme | null\<close> as the value it is at run time.\<close>

fun theme_or_null :: "Theme option \<Rightarrow> jsval" where
  "theme_or_null None = JNull"
| "theme_or_null (Some t) = JStr (theme_value t)"

text \<open>
  The fragment \<open>SSRTheme\<close> renders: the \<open>meta\<close> element with its name and content, then
  the \<open>script\<close> element when \<open>!ssrTheme\<close> holds (\<open>false\<close> renders nothing).
\<close>

definition SSRTheme :: "jsval option \<Rightarrow> jsval \<Rightarrow> error + element list" where
  "SSRTheme ctx ssrTheme =
     (case useTheme ctx of
        Inl e \<Rightarrow> Inl e
      | Inr theme \<Rightarrow>
          Inr (Meta ''color-scheme''
                 (if \<not> truthy theme \<or> theme = JStr (theme_value DARK)
                  then ''dark light'' else ''light dark'')
               # (if \<not> truthy ssrTheme then [Script ssrThemeScript] else [])))"

section \<open>A storage for concrete runs\<close>

text \<open>
  An instance of the storage parameters, used where a property is run on a concrete
  request: the cookie is the stored theme as plain text, unsigned.
\<close>

definition plain_storage :: session_storage where
  "plain_storage =
     \<lparr>getSession = (\<lambda>cookie. case cookie of None \<Rightarrow> Map.empty | Some c \<Rightarrow> [''theme'' \<mapsto> JStr c]),
      commitSession = (\<lambda>s. case s ''theme'' of Some (JStr t) \<Rightarrow> t | _ \<Rightarrow> [])\<rparr>"

section \<open>Properties of the type guard and the session\<close>

lemma isTheme_theme_value: "isTheme (JStr (theme_value t))"
  by (cases t) (simp_all add: isTheme_def themes_def)

lemma isTheme_cases: "isTheme v \<Longrightarrow> v = JStr ''dark'' \<or> v = JStr ''light''"
  by (cases v) (auto simp: isTheme_def themes_def)

text \<open>
  Claim C4. The type guard \<open>isTheme\<close> holds of the string \<open>dark\<close> and of the string
  \<open>light\<close>, and of no other value, a string or not.
\<close>

theorem isTheme_iff:
  "isTheme v = (v = JStr ''dark'' \<or> v = JStr ''light'')"
  by (cases v) (auto simp: isTheme_def themes_def)

text \<open>The guard on the two themes and on some values that are neither.\<close>

theorem isTheme_iff_witness:
  "isTheme (JStr ''dark'') \<and> isTheme (JStr ''light'') \<and> \<not> isTheme (JStr ''Dark'')
   \<and> \<not> isTheme (JStr '''') \<and> \<not> isTheme JNull \<and> \<not> isTheme (JNum 1)
   \<and> \<not> isTheme (JArr [JStr ''dark''])"
  using isTheme_iff [of "JStr ''dark''"] isTheme_iff [of "JStr ''light''"]
    isTheme_iff [of "JStr ''Dark''"] isTheme_iff [of "JStr ''''"] isTheme_iff [of JNull]
    isTheme_iff [of "JNum 1"] isTheme_iff [of "JArr [JStr ''dark'']"]
  by simp

text \<open>
  Claim C3. Whatever the session holds, and so whatever cookie it was decoded from and
  however the storage decodes it, \<open>getTheme\<close> returns the string \<open>dark\<close>, the string
  \<open>light\<close> or \<open>null\<close>.
\<close>

theorem getTheme_range:
  "getTheme s \<in> {JStr ''dark'', JStr ''light'', JNull}
   \<and> getTheme (getThemeSession storage req) \<in> {JStr ''dark'', JStr ''light'', JNull}"
proof -
  have "getTheme x \<in> {JStr ''dark'', JStr ''light'', JNull}" for x
  proof (cases "isTheme (session_get x ''theme'')")
    case True
    then have "session_get x ''theme'' = JStr ''dark'' \<or> session_get x ''theme'' = JStr ''light''"
      by (rule isTheme_cases)
    with True show ?thesis by (auto simp: getTheme_def)
  next
    case False
    then show ?thesis by (simp add: getTheme_def)
  qed
  then show ?thesis by blast
qed

text \<open>
  A session holding a string that is no theme, one holding a number, an empty one and
  one holding a theme; the first is also what the plain storage decodes from the cookie
  \<open>blue\<close>.
\<close>

theorem getTheme_range_witness:
  "getTheme [''theme'' \<mapsto> JStr ''blue''] = JNull
   \<and> getTheme [''theme'' \<mapsto> JNum 7] = JNull
   \<and> getTheme Map.empty = JNull
   \<and> getTheme [''theme'' \<mapsto> JStr ''light''] = JStr ''light''
   \<and> getTheme (getThemeSession plain_storage
        \<lparr>url_pathname = ''/'', headers_get = [''Cookie'' \<mapsto> ''blue''], body_json = None\<rparr>)
       = JNull"
proof -
  have "getTheme [''theme'' \<mapsto> JStr ''blue''] \<noteq> JStr ''dark''"
    and "getTheme [''theme'' \<mapsto> JStr ''blue''] \<noteq> JStr ''light''"
    by (simp_all add: getTheme_def session_get_def isTheme_def themes_def)
  then have 1: "getTheme [''theme'' \<mapsto> JStr ''blue''] = JNull"
    using getTheme_range [of "[''theme'' \<mapsto> JStr ''blue'']" plain_storage
        "\<lparr>url_pathname = ''/'', headers_get = [''Cookie'' \<mapsto> ''blue''], body_json = None\<rparr>"]
    by simp
  have 2: "getThemeSession plain_storage
        \<lparr>url_pathname = ''/'', headers_get = [''Cookie'' \<mapsto> ''blue''], body_json = None\<rparr>
      = [''theme'' \<mapsto> JStr ''blue'']"
    by (simp add: getThemeSession_def plain_storage_def)
  have 3: "getTheme [''theme'' \<mapsto> JNum 7] = JNull" "getTheme Map.empty = JNull"
    "getTheme [''theme'' \<mapsto> JStr ''light''] = JStr ''light''"
    by (simp_all add: getTheme_def session_get_def isTheme_def themes_def)
  from 1 2 3 show ?thesis by simp
qed

section \<open>Properties of the request helpers\<close>

lemma startsWith_q: "startsWith str ''q'' = (\<exists>rest. str = CHR ''q'' # rest)"
  by (cases str) (auto simp: startsWith_def)

text \<open>A split has at least one piece, so the first case of the inner match never applies.\<close>

lemma split_chars_not_Nil: "split_chars sep s \<noteq> []"
  by (induction s) (auto split: list.splits)

text \<open>
  Claim C7. \<open>getFromEnv\<close> throws its error, which names the key, exactly when
  \<open>source[key]\<close> is falsy, and returns \<open>source[key]\<close> otherwise. For every value that
  is not \<open>null\<close>, \<open>false\<close> or zero, so for every string, for \<open>undefined\<close> and for what
  \<open>Object.prototype\<close> hands down, falsy means absent (\<open>undefined\<close>) or the empty string.
  A key with a non-empty string of its own returns that string; a key that the source
  neither has nor inherits, or has with \<open>undefined\<close> or the empty string, throws.
  Without a source the function reads \<open>process.env\<close>. On the key \<open>X\<close> it throws for the
  object \<open>{}\<close> and returns \<open>v\<close> for \<open>{X: 'v'}\<close>; on the key \<open>toString\<close> the object \<open>{}\<close>
  has the method it inherits, which is returned.
\<close>

theorem getFromEnv_throws_iff:
  "(getFromEnv env key (Some source) = Inl (Error (key @ '' should be in environment'')))
     = (\<not> truthy (object_get source key))
   \<and> (truthy (object_get source key) \<longrightarrow>
        getFromEnv env key (Some source) = Inr (object_get source key))
   \<and> (object_get source key \<noteq> JNull \<and> object_get source key \<noteq> JBool False
        \<and> object_get source key \<noteq> JNum 0 \<longrightarrow>
        (getFromEnv env key (Some source) = Inl (Error (key @ '' should be in environment'')))
          = (object_get source key = JUndefined \<or> object_get source key = JStr []))
   \<and> (\<forall>v. own source key = Some (Some v) \<and> v \<noteq> [] \<longrightarrow>
        getFromEnv env key (Some source) = Inr (JStr v))
   \<and> ((own source key = None \<and> inherited source key = None) \<or> own source key = Some None
        \<or> own source key = Some (Some []) \<longrightarrow>
        getFromEnv env key (Some source) = Inl (Error (key @ '' should be in environment'')))
   \<and> getFromEnv env key None = getFromEnv env key (Some env)
   \<and> getFromEnv env ''X'' (Some \<lparr>own = Map.empty, inherited = object_prototype\<rparr>)
       = Inl (Error ''X should be in environment'')
   \<and> getFromEnv env ''X'' (Some \<lparr>own = [''X'' \<mapsto> Some ''v''], inherited = object_prototype\<rparr>)
       = Inr (JStr ''v'')
   \<and> getFromEnv env ''toString'' (Some \<lparr>own = Map.empty, inherited = object_prototype\<rparr>)
       = Inr (JFun ''toString'')"
proof -
  let ?thrown = "Inl (Error (key @ '' should be in environment'')) :: error + jsval"
  let ?v = "object_get source key"
  have run: "getFromEnv env key (Some source) = (if truthy ?v then Inr ?v else ?thrown)"
    by (simp add: getFromEnv_def)
  have 1: "(getFromEnv env key (Some source) = ?thrown) = (\<not> truthy ?v)"
    by (simp add: run)
  have 2: "truthy ?v \<longrightarrow> getFromEnv env key (Some source) = Inr ?v"
    by (simp add: run)
  have falsy: "(\<not> truthy x) = (x = JUndefined \<or> x = JStr [])"
    if "x \<noteq> JNull" "x \<noteq> JBool False" "x \<noteq> JNum 0" for x
    using that by (cases x) auto
  have 3: "?v \<noteq> JNull \<and> ?v \<noteq> JBool False \<and> ?v \<noteq> JNum 0 \<longrightarrow>
      (getFromEnv env key (Some source) = ?thrown) = (?v = JUndefined \<or> ?v = JStr [])"
    using falsy [of ?v] 1 by blast
  have 4: "\<forall>v. own source key = Some (Some v) \<and> v \<noteq> [] \<longrightarrow>
      getFromEnv env key (Some source) = Inr (JStr v)"
    by (simp add: run object_get_def)
  have 5: "(own source key = None \<and> inherited source key = None) \<or> own source key = Some None
        \<or> own source key = Some (Some []) \<longrightarrow> getFromEnv env key (Some source) = ?thrown"
    by (auto simp: run object_get_def)
  have 6: "getFromEnv env key None = getFromEnv env key (Some env)"
    by (simp add: getFromEnv_def)
  have 7: "getFromEnv env ''X'' (Some \<lparr>own = Map.empty, inherited = object_prototype\<rparr>)
       = Inl (Error ''X should be in environment'')"
    by (simp add: getFromEnv_def object_get_def object_prototype_def)
  have 8: "getFromEnv env ''X'' (Some \<lparr>own = [''X'' \<mapsto> Some ''v''], inherited = object_prototype\<rparr>)
       = Inr (JStr ''v'')"
    by (simp add: getFromEnv_def object_get_def)
  have 9: "getFromEnv env ''toString'' (Some \<lparr>own = Map.empty, inherited = object_prototype\<rparr>)
       = Inr (JFun ''toString'')"
    by (simp add: getFromEnv_def object_get_def object_prototype_def)
  from 1 2 3 4 5 6 7 8 9 show ?thesis by blast
qed

text \<open>
  The lookup of \<open>X\<close> in \<open>{}\<close>, in \<open>{X: 'v'}\<close> and in \<open>{X: ''}\<close>, of \<open>toString\<close> in
  \<open>{toString: undefined}\<close> and in \<open>{}\<close>, and of \<open>X\<close> in the default.
\<close>

theorem getFromEnv_throws_iff_witness:
  "getFromEnv \<lparr>own = Map.empty, inherited = object_prototype\<rparr> ''X''
       (Some \<lparr>own = Map.empty, inherited = object_prototype\<rparr>)
     = Inl (Error ''X should be in environment'')
   \<and> getFromEnv \<lparr>own = Map.empty, inherited = object_prototype\<rparr> ''X''
       (Some \<lparr>own = [''X'' \<mapsto> Some ''v''], inherited = object_prototype\<rparr>)
     = Inr (JStr ''v'')
   \<and> getFromEnv \<lparr>own = Map.empty, inherited = object_prototype\<rparr> ''X''
       (Some \<lparr>own = [''X'' \<mapsto> Some []], inherited = object_prototype\<rparr>)
     = Inl (Error ''X should be in environment'')
   \<and> getFromEnv \<lparr>own = Map.empty, inherited = object_prototype\<rparr> ''toString''
       (Some \<lparr>own = [''toString'' \<mapsto> None], inherited = object_prototype\<rparr>)
     = Inl (Error ''toString should be in environment'')
   \<and> getFromEnv \<lparr>own = Map.empty, inherited = object_prototype\<rparr> ''toString''
       (Some \<lparr>own = Map.empty, inherited = object_prototype\<rparr>)
     = Inr (JFun ''toString'')
   \<and> getFromEnv \<lparr>own = [''X'' \<mapsto> Some ''w''], inherited = object_prototype\<rparr> ''X'' None
     = Inr (JStr ''w'')"
proof -
  let ?empty = "\<lparr>own = Map.empty, inherited = object_prototype\<rparr>"
  have 1: "getFromEnv ?empty ''X'' (Some ?empty) = Inl (Error ''X should be in environment'')"
    and 5: "getFromEnv ?empty ''toString'' (Some ?empty) = Inr (JFun ''toString'')"
    using getFromEnv_throws_iff [of ?empty "''X''" ?empty] by simp_all
  have 2: "getFromEnv ?empty ''X''
      (Some \<lparr>own = [''X'' \<mapsto> Some ''v''], inherited = object_prototype\<rparr>) = Inr (JStr ''v'')"
    using getFromEnv_throws_iff [of ?empty "''X''"
        "\<lparr>own = [''X'' \<mapsto> Some ''v''], inherited = object_prototype\<rparr>"]
    by simp
  have 3: "getFromEnv ?empty ''X''
      (Some \<lparr>own = [''X'' \<mapsto> Some []], inherited = object_prototype\<rparr>)
      = Inl (Error ''X should be in environment'')"
    using getFromEnv_throws_iff [of ?empty "''X''"
        "\<lparr>own = [''X'' \<mapsto> Some []], inherited = object_prototype\<rparr>"]
    by simp
  have 4: "getFromEnv ?empty ''toString''
      (Some \<lparr>own = [''toString'' \<mapsto> None], inherited = object_prototype\<rparr>)
      = Inl (Error ''toString should be in environment'')"
    using getFromEnv_throws_iff [of ?empty "''toString''"
        "\<lparr>own = [''toString'' \<mapsto> None], inherited = object_prototype\<rparr>"]
    by simp
  have 6: "getFromEnv \<lparr>own = [''X'' \<mapsto> Some ''w''], inherited = object_prototype\<rparr> ''X'' None
      = Inr (JStr ''w'')"
    using getFromEnv_throws_iff [of "\<lparr>own = [''X'' \<mapsto> Some ''w''], inherited = object_prototype\<rparr>"
        "''X''" "\<lparr>own = [''X'' \<mapsto> Some ''w''], inherited = object_prototype\<rparr>"]
    by simp
  from 1 2 3 4 5 6 show ?thesis by blast
qed

text \<open>
  Claim C5, as the code has it. On the header \<open>en-US,fr;q=0.8\<close> the split at commas and
  semicolons gives the pieces \<open>en-US\<close>, \<open>fr\<close> and \<open>q=0.8\<close>, of which only the last
  starts with \<open>q\<close>: \<open>withLocale\<close> returns \<open>en-US\<close> and \<open>fr\<close>, in this order. Without the
  header it returns the default, \<open>en-US\<close> alone.
\<close>

theorem withLocale_example:
  "withLocale \<lparr>url_pathname = p,
       headers_get = [''accepted-language'' \<mapsto> ''en-US,fr;q=0.8''],
       body_json = b\<rparr> = [''en-US'', ''fr'']
   \<and> (headers_get req ''accepted-language'' = None \<longrightarrow> withLocale req = [''en-US''])"
  by (simp add: withLocale_def js_not_def comma_or_semicolon_def startsWith_def)

text \<open>A request with the header of the claim, and one without any header.\<close>

theorem withLocale_example_witness:
  "withLocale \<lparr>url_pathname = ''/'',
       headers_get = [''accepted-language'' \<mapsto> ''en-US,fr;q=0.8''],
       body_json = None\<rparr> = [''en-US'', ''fr'']
   \<and> withLocale \<lparr>url_pathname = ''/'', headers_get = Map.empty, body_json = None\<rparr>
       = [''en-US'']"
  using withLocale_example [of "''/''" None
      "\<lparr>url_pathname = ''/'', headers_get = Map.empty, body_json = None\<rparr>"]
  by simp

text \<open>
  The result on the header of the claim is not the list of \<open>en-US\<close> alone: the piece
  \<open>fr\<close> is kept.
\<close>

theorem withLocale_example_counterexample:
  "withLocale \<lparr>url_pathname = ''/'',
       headers_get = [''accepted-language'' \<mapsto> ''en-US,fr;q=0.8''],
       body_json = None\<rparr> \<noteq> [''en-US'']"
  by (simp add: withLocale_def js_not_def comma_or_semicolon_def startsWith_def)

text \<open>
  Claim C10, as the code has it. With a header that is present and not empty,
  \<open>withLocale\<close> returns the pieces between commas and semicolons that do not start
  with the character \<open>q\<close>, whatever follows it: the tag \<open>qu\<close> is dropped like a quality
  value, and when every piece starts with \<open>q\<close> the result is the empty list, not the
  default. The default is returned when the header is absent and also when it is
  present with the empty string as its value.
\<close>

theorem withLocale_filter:
  "(headers_get req ''accepted-language'' = Some s \<and> s \<noteq> [] \<longrightarrow>
      withLocale req =
        filter (\<lambda>seg. \<not> (\<exists>rest. seg = CHR ''q'' # rest)) (split_chars comma_or_semicolon s))
   \<and> (headers_get req ''accepted-language'' = Some s \<and> s \<noteq> []
        \<and> (\<forall>seg \<in> set (split_chars comma_or_semicolon s). \<exists>rest. seg = CHR ''q'' # rest) \<longrightarrow>
      withLocale req = [])
   \<and> (headers_get req ''accepted-language'' = None
        \<or> headers_get req ''accepted-language'' = Some [] \<longrightarrow>
      withLocale req = [''en-US''])
   \<and> withLocale \<lparr>url_pathname = p, headers_get = [''accepted-language'' \<mapsto> ''en,qu''],
        body_json = b\<rparr> = [''en'']"
proof (intro conjI impI)
  assume "headers_get req ''accepted-language'' = Some s \<and> s \<noteq> []"
  then show "withLocale req =
      filter (\<lambda>seg. \<not> (\<exists>rest. seg = CHR ''q'' # rest)) (split_chars comma_or_semicolon s)"
    by (simp add: withLocale_def js_not_def startsWith_q)
next
  assume h: "headers_get req ''accepted-language'' = Some s \<and> s \<noteq> []
    \<and> (\<forall>seg \<in> set (split_chars comma_or_semicolon s). \<exists>rest. seg = CHR ''q'' # rest)"
  then have "filter (\<lambda>str. \<not> startsWith str ''q'') (split_chars comma_or_semicolon s) = []"
    by (simp add: filter_empty_conv startsWith_q)
  with h show "withLocale req = []"
    by (simp add: withLocale_def js_not_def)
next
  assume "headers_get req ''accepted-language'' = None
    \<or> headers_get req ''accepted-language'' = Some []"
  then show "withLocale req = [''en-US'']"
    by (auto simp: withLocale_def js_not_def)
next
  show "withLocale \<lparr>url_pathname = p, headers_get = [''accepted-language'' \<mapsto> ''en,qu''],
        body_json = b\<rparr> = [''en'']"
    by (simp add: withLocale_def js_not_def comma_or_semicolon_def startsWith_def)
qed

text \<open>
  A header whose three pieces all start with \<open>q\<close>, a header with the empty value, no
  header, and a header with the tag \<open>qu\<close>.
\<close>

theorem withLocale_filter_witness:
  "withLocale \<lparr>url_pathname = ''/'', headers_get = [''accepted-language'' \<mapsto> ''q=0.8;qu,q''],
       body_json = None\<rparr> = []
   \<and> withLocale \<lparr>url_pathname = ''/'', headers_get = [''accepted-language'' \<mapsto> ''''],
       body_json = None\<rparr> = [''en-US'']
   \<and> withLocale \<lparr>url_pathname = ''/'', headers_get = Map.empty, body_json = None\<rparr> = [''en-US'']
   \<and> withLocale \<lparr>url_pathname = ''/'', headers_get = [''accepted-language'' \<mapsto> ''en,qu''],
        body_json = None\<rparr> = [''en'']"
proof -
  let ?r = "\<lparr>url_pathname = ''/'', headers_get = [''accepted-language'' \<mapsto> ''q=0.8;qu,q''],
       body_json = None\<rparr>"
  have segs: "split_chars comma_or_semicolon ''q=0.8;qu,q'' = [''q=0.8'', ''qu'', ''q'']"
    by (simp add: comma_or_semicolon_def)
  have 1: "withLocale ?r = []"
    using withLocale_filter [of ?r "''q=0.8;qu,q''" "''/''" None] unfolding segs by simp
  have 2: "withLocale \<lparr>url_pathname = ''/'', headers_get = [''accepted-language'' \<mapsto> ''''],
       body_json = None\<rparr> = [''en-US'']"
    using withLocale_filter [of "\<lparr>url_pathname = ''/'', headers_get = [''accepted-language'' \<mapsto> ''''],
       body_json = None\<rparr>" "''''" "''/''" None] by simp
  have 3: "withLocale \<lparr>url_pathname = ''/'', headers_get = Map.empty, body_json = None\<rparr> = [''en-US'']"
    using withLocale_filter [of "\<lparr>url_pathname = ''/'', headers_get = Map.empty, body_json = None\<rparr>"
       "''''" "''/''" None] by simp
  have 4: "withLocale \<lparr>url_pathname = ''/'', headers_get = [''accepted-language'' \<mapsto> ''en,qu''],
        body_json = None\<rparr> = [''en'']"
    using withLocale_filter [of ?r "''q=0.8;qu,q''" "''/''" None] by simp
  from 1 2 3 4 show ?thesis by blast
qed

text \<open>
  The default is not kept for an absent header: on a header that is present with the
  empty value \<open>withLocale\<close> returns the default, where the filtered split of that value
  is the list of one empty piece.
\<close>

theorem withLocale_default_counterexample:
  "headers_get \<lparr>url_pathname = ''/'', headers_get = [''accepted-language'' \<mapsto> ''''],
       body_json = None\<rparr> ''accepted-language'' = Some ''''
   \<and> withLocale \<lparr>url_pathname = ''/'', headers_get = [''accepted-language'' \<mapsto> ''''],
       body_json = None\<rparr> = [''en-US'']
   \<and> filter (\<lambda>str. \<not> startsWith str ''q'') (split_chars comma_or_semicolon '''') = ['''']"
  by (simp add: withLocale_def js_not_def startsWith_def)





text \<open>
  Claim C6. With \<open>null\<close> or the empty string as the value, \<open>mergeHeaders\<close> returns the
  reference it was given and leaves the store as it was, whatever container the
  reference holds: a \<open>Headers\<close> instance, an array of entries or a plain object.
\<close>

theorem mergeHeaders_empty_value:
  "mergeHeaders st headers None = (st, Inr headers)
   \<and> mergeHeaders st headers (Some '''') = (st, Inr headers)"
  by (simp add: mergeHeaders_def js_not_def)

text \<open>A store with one container of each shape, and the empty value merged into each.\<close>

theorem mergeHeaders_empty_value_witness:
  "mergeHeaders (\<lambda>a. if a = 0 then HeadersInstance Accepting [(''Vary'', ''Cookie'')]
                     else if a = 1 then PairArray [[''Vary'', ''Cookie'']]
                     else PlainObject [''Vary'' \<mapsto> ''Cookie'']) 0 (Some '''')
     = (\<lambda>a. if a = 0 then HeadersInstance Accepting [(''Vary'', ''Cookie'')]
             else if a = 1 then PairArray [[''Vary'', ''Cookie'']]
             else PlainObject [''Vary'' \<mapsto> ''Cookie''], Inr 0)
   \<and> mergeHeaders (\<lambda>a. if a = 0 then HeadersInstance Accepting [(''Vary'', ''Cookie'')]
                     else if a = 1 then PairArray [[''Vary'', ''Cookie'']]
                     else PlainObject [''Vary'' \<mapsto> ''Cookie'']) 1 None
     = (\<lambda>a. if a = 0 then HeadersInstance Accepting [(''Vary'', ''Cookie'')]
             else if a = 1 then PairArray [[''Vary'', ''Cookie'']]
             else PlainObject [''Vary'' \<mapsto> ''Cookie''], Inr 1)
   \<and> mergeHeaders (\<lambda>a. if a = 0 then HeadersInstance Accepting [(''Vary'', ''Cookie'')]
                     else if a = 1 then PairArray [[''Vary'', ''Cookie'']]
                     else PlainObject [''Vary'' \<mapsto> ''Cookie'']) 2 (Some '''')
     = (\<lambda>a. if a = 0 then HeadersInstance Accepting [(''Vary'', ''Cookie'')]
             else if a = 1 then PairArray [[''Vary'', ''Cookie'']]
             else PlainObject [''Vary'' \<mapsto> ''Cookie''], Inr 2)"
  using mergeHeaders_empty_value [of "\<lambda>a. if a = 0 then HeadersInstance Accepting [(''Vary'', ''Cookie'')]
                     else if a = 1 then PairArray [[''Vary'', ''Cookie'']]
                     else PlainObject [''Vary'' \<mapsto> ''Cookie'']"]
  by simp




section \<open>Properties of the set-theme action\<close>

lemma get_prop_defined:
  "data \<noteq> JNull \<Longrightarrow> data \<noteq> JUndefined \<Longrightarrow> \<exists>v. get_prop data k = Inr v"
  by (cases data) (auto split: option.splits)

lemma get_prop_falsy:
  "data \<noteq> JNull \<Longrightarrow> data \<noteq> JUndefined \<Longrightarrow> \<not> truthy data \<Longrightarrow>
   get_prop data k = Inr JUndefined"
  by (cases data) auto

lemma setThemeAction_invalid:
  assumes "body_json req = Some data" "data \<noteq> JNull" "data \<noteq> JUndefined"
    "get_prop data ''theme'' = Inr theme" "\<not> isTheme theme"
  shows "setThemeAction storage req = Inr (redirect (url_pathname req) None)"
proof (cases "truthy data")
  case True
  with assms show ?thesis by (simp add: setThemeAction_def data_or_theme_def)
next
  case False
  with assms get_prop_falsy [of data "''theme''"] show ?thesis
    by (simp add: setThemeAction_def data_or_theme_def)
qed

lemma setThemeAction_valid:
  assumes "body_json req = Some data" "truthy data"
    "get_prop data ''theme'' = Inr theme" "isTheme theme"
  shows "setThemeAction storage req =
    Inr (redirect (url_pathname req)
          (Some (commit storage (setTheme theme (getThemeSession storage req)))))"
  using assms by (simp add: setThemeAction_def data_or_theme_def)

lemma getTheme_setTheme: "isTheme theme \<Longrightarrow> getTheme (setTheme theme s) = theme"
  by (simp add: getTheme_def setTheme_def session_set_def session_get_def)

text \<open>
  Claim C1, as the code has it. When \<open>request.json()\<close> rejects, as it does on a body
  that is absent or is not JSON, the action rejects with the same error: it sends no
  redirect, and no \<open>Set-Cookie\<close> header either. When the body parses to a value other
  than \<open>null\<close> whose \<open>theme\<close> property fails the type guard (the property of a value
  without one is \<open>undefined\<close>), the action answers with a redirect to the path of the
  request that carries no \<open>Set-Cookie\<close> header, so the visitor's next request decodes to
  the same session as this one.
\<close>

theorem setThemeAction_rejects_invalid:
  "(body_json req = None \<longrightarrow> setThemeAction storage req = Inl SyntaxError)
   \<and> (body_json req = Some data \<and> data \<noteq> JNull \<and> data \<noteq> JUndefined \<longrightarrow>
        (\<exists>theme. get_prop data ''theme'' = Inr theme
           \<and> (\<not> isTheme theme \<longrightarrow>
                 setThemeAction storage req = Inr (redirect (url_pathname req) None)
                 \<and> set_cookie (redirect (url_pathname req) None) = None
                 \<and> location (redirect (url_pathname req) None) = url_pathname req
                 \<and> getThemeSession storage
                      (subsequent_request req (redirect (url_pathname req) None))
                    = getThemeSession storage req)))"
proof (intro conjI impI)
  assume "body_json req = None"
  then show "setThemeAction storage req = Inl SyntaxError"
    by (simp add: setThemeAction_def)
next
  assume a: "body_json req = Some data \<and> data \<noteq> JNull \<and> data \<noteq> JUndefined"
  then obtain theme where t: "get_prop data ''theme'' = Inr theme"
    using get_prop_defined by blast
  have "setThemeAction storage req = Inr (redirect (url_pathname req) None)"
    if "\<not> isTheme theme"
    using a t that by (simp add: setThemeAction_invalid)
  moreover have "set_cookie (redirect (url_pathname req) None) = None"
    and "location (redirect (url_pathname req) None) = url_pathname req"
    by (simp_all add: redirect_def)
  moreover have "getThemeSession storage
      (subsequent_request req (redirect (url_pathname req) None)) = getThemeSession storage req"
    by (simp add: subsequent_request_def redirect_def)
  ultimately show "\<exists>theme. get_prop data ''theme'' = Inr theme
           \<and> (\<not> isTheme theme \<longrightarrow>
                 setThemeAction storage req = Inr (redirect (url_pathname req) None)
                 \<and> set_cookie (redirect (url_pathname req) None) = None
                 \<and> location (redirect (url_pathname req) None) = url_pathname req
                 \<and> getThemeSession storage
                      (subsequent_request req (redirect (url_pathname req) None))
                    = getThemeSession storage req)"
    using t by blast
qed

text \<open>
  A request whose body does not parse, one whose body names a theme that does not
  exist, and one whose body is the number zero, each sent with the cookie \<open>dark\<close>.
\<close>

theorem setThemeAction_rejects_invalid_witness:
  "setThemeAction plain_storage
     \<lparr>url_pathname = ''/settings'', headers_get = [''Cookie'' \<mapsto> ''dark''], body_json = None\<rparr>
     = Inl SyntaxError
   \<and> setThemeAction plain_storage
       \<lparr>url_pathname = ''/settings'', headers_get = [''Cookie'' \<mapsto> ''dark''],
          body_json = Some (JObj [(''theme'', JStr ''blue'')])\<rparr>
     = Inr \<lparr>status = 302, location = ''/settings'', set_cookie = None\<rparr>
   \<and> setThemeAction plain_storage
       \<lparr>url_pathname = ''/settings'', headers_get = [''Cookie'' \<mapsto> ''dark''],
          body_json = Some (JNum 0)\<rparr>
     = Inr \<lparr>status = 302, location = ''/settings'', set_cookie = None\<rparr>"
  using setThemeAction_rejects_invalid [of
      "\<lparr>url_pathname = ''/settings'', headers_get = [''Cookie'' \<mapsto> ''dark''], body_json = None\<rparr>"
      plain_storage JNull]
    setThemeAction_rejects_invalid [of
      "\<lparr>url_pathname = ''/settings'', headers_get = [''Cookie'' \<mapsto> ''dark''],
          body_json = Some (JObj [(''theme'', JStr ''blue'')])\<rparr>"
      plain_storage "JObj [(''theme'', JStr ''blue'')]"]
    setThemeAction_rejects_invalid [of
      "\<lparr>url_pathname = ''/settings'', headers_get = [''Cookie'' \<mapsto> ''dark''],
          body_json = Some (JNum 0)\<rparr>"
      plain_storage "JNum 0"]
  by (simp add: isTheme_def themes_def redirect_def)

text \<open>
  On a request whose body does not parse the action does not answer with the redirect:
  it rejects with the error of \<open>request.json()\<close>.
\<close>

theorem setThemeAction_malformed_counterexample:
  "setThemeAction plain_storage
     \<lparr>url_pathname = ''/settings'', headers_get = [''Cookie'' \<mapsto> ''dark''], body_json = None\<rparr>
   = Inl SyntaxError
   \<and> setThemeAction plain_storage
     \<lparr>url_pathname = ''/settings'', headers_get = [''Cookie'' \<mapsto> ''dark''], body_json = None\<rparr>
   \<noteq> Inr (redirect ''/settings'' None)"
  by (simp add: setThemeAction_def)

text \<open>
  Claim C2. Take a request whose body is an object with \<open>theme\<close> property \<open>v\<close>. When
  \<open>v\<close> is one of the two themes, the action redirects with a \<open>Set-Cookie\<close> header that
  is the commit of a session whose \<open>getTheme\<close> is \<open>v\<close>, and the session of the next
  request, which presents that cookie, has \<open>getTheme\<close> equal to \<open>v\<close>, given that the
  storage decodes this cookie to the session it encodes. When \<open>v\<close> fails the type guard,
  the action sets no cookie and \<open>getTheme\<close> on the next request is what it is on this
  one.
\<close>

theorem set_then_get:
  assumes body: "body_json req = Some (JObj kvs)"
    and field: "get_prop (JObj kvs) ''theme'' = Inr v"
  shows "(v = JStr (theme_value t) \<longrightarrow>
            (\<exists>resp s'. setThemeAction storage req = Inr resp
               \<and> location resp = url_pathname req
               \<and> set_cookie resp = Some (commit storage s')
               \<and> s' = setTheme v (getThemeSession storage req)
               \<and> getTheme s' = JStr (theme_value t)
               \<and> (getSession storage (Some (commitSession storage s')) = s' \<longrightarrow>
                    getTheme (getThemeSession storage (subsequent_request req resp))
                      = JStr (theme_value t))))
       \<and> (\<not> isTheme v \<longrightarrow>
            (\<exists>resp. setThemeAction storage req = Inr resp
               \<and> set_cookie resp = None
               \<and> getTheme (getThemeSession storage (subsequent_request req resp))
                    = getTheme (getThemeSession storage req)))"
proof (intro conjI impI)
  assume v: "v = JStr (theme_value t)"
  let ?s = "setTheme v (getThemeSession storage req)"
  let ?resp = "redirect (url_pathname req) (Some (commit storage ?s))"
  have ok: "isTheme v" using v by (simp add: isTheme_theme_value)
  have act: "setThemeAction storage req = Inr ?resp"
    using body field ok by (intro setThemeAction_valid [where data = "JObj kvs"]) simp_all
  have get: "getTheme ?s = JStr (theme_value t)"
    using ok v by (simp add: getTheme_setTheme)
  have next_req:
    "getTheme (getThemeSession storage (subsequent_request req ?resp)) = JStr (theme_value t)"
    if "getSession storage (Some (commitSession storage ?s)) = ?s"
    using that get
    by (simp add: subsequent_request_def redirect_def getThemeSession_def commit_def)
  show "\<exists>resp s'. setThemeAction storage req = Inr resp
               \<and> location resp = url_pathname req
               \<and> set_cookie resp = Some (commit storage s')
               \<and> s' = setTheme v (getThemeSession storage req)
               \<and> getTheme s' = JStr (theme_value t)
               \<and> (getSession storage (Some (commitSession storage s')) = s' \<longrightarrow>
                    getTheme (getThemeSession storage (subsequent_request req resp))
                      = JStr (theme_value t))"
  proof (intro exI conjI impI)
    show "setThemeAction storage req = Inr ?resp" by (rule act)
    show "location ?resp = url_pathname req" by (simp add: redirect_def)
    show "set_cookie ?resp = Some (commit storage ?s)" by (simp add: redirect_def)
    show "?s = setTheme v (getThemeSession storage req)" by simp
    show "getTheme ?s = JStr (theme_value t)" by (rule get)
    show "getTheme (getThemeSession storage (subsequent_request req ?resp)) = JStr (theme_value t)"
      if "getSession storage (Some (commitSession storage ?s)) = ?s"
      using that by (rule next_req)
  qed
next
  assume bad: "\<not> isTheme v"
  let ?resp = "redirect (url_pathname req) None"
  have act: "setThemeAction storage req = Inr ?resp"
    using body field bad by (intro setThemeAction_invalid [where data = "JObj kvs"]) simp_all
  moreover have "set_cookie ?resp = None" by (simp add: redirect_def)
  moreover have "subsequent_request req ?resp = req"
    by (simp add: subsequent_request_def redirect_def)
  ultimately show "\<exists>resp. setThemeAction storage req = Inr resp
               \<and> set_cookie resp = None
               \<and> getTheme (getThemeSession storage (subsequent_request req resp))
                    = getTheme (getThemeSession storage req)"
    by simp
qed

text \<open>
  The action of the claim on a request that carries the cookie \<open>dark\<close>: with the body
  \<open>{theme: "light"}\<close> the next request reads \<open>light\<close>, with the body
  \<open>{theme: "blue"}\<close> it still reads \<open>dark\<close>.
\<close>

theorem set_then_get_witness:
  "setThemeAction plain_storage
       \<lparr>url_pathname = ''/settings'', headers_get = [''Cookie'' \<mapsto> ''dark''],
          body_json = Some (JObj [(''theme'', JStr ''light'')])\<rparr>
     = Inr \<lparr>status = 302, location = ''/settings'', set_cookie = Some ''light''\<rparr>
   \<and> getTheme (getThemeSession plain_storage
        (subsequent_request
           \<lparr>url_pathname = ''/settings'', headers_get = [''Cookie'' \<mapsto> ''dark''],
              body_json = Some (JObj [(''theme'', JStr ''light'')])\<rparr>
           \<lparr>status = 302, location = ''/settings'', set_cookie = Some ''light''\<rparr>))
     = JStr ''light''
   \<and> setThemeAction plain_storage
       \<lparr>url_pathname = ''/settings'', headers_get = [''Cookie'' \<mapsto> ''dark''],
          body_json = Some (JObj [(''theme'', JStr ''blue'')])\<rparr>
     = Inr \<lparr>status = 302, location = ''/settings'', set_cookie = None\<rparr>
   \<and> getTheme (getThemeSession plain_storage
        (subsequent_request
           \<lparr>url_pathname = ''/settings'', headers_get = [''Cookie'' \<mapsto> ''dark''],
              body_json = Some (JObj [(''theme'', JStr ''blue'')])\<rparr>
           \<lparr>status = 302, location = ''/settings'', set_cookie = None\<rparr>))
     = JStr ''dark''"
proof -
  let ?good = "\<lparr>url_pathname = ''/settings'', headers_get = [''Cookie'' \<mapsto> ''dark''],
          body_json = Some (JObj [(''theme'', JStr ''light'')])\<rparr>"
  let ?bad = "\<lparr>url_pathname = ''/settings'', headers_get = [''Cookie'' \<mapsto> ''dark''],
          body_json = Some (JObj [(''theme'', JStr ''blue'')])\<rparr>"
  have before: "getThemeSession plain_storage ?good = [''theme'' \<mapsto> JStr ''dark'']"
    "getThemeSession plain_storage ?bad = [''theme'' \<mapsto> JStr ''dark'']"
    by (simp_all add: getThemeSession_def plain_storage_def)
  have round: "getSession plain_storage (Some (commitSession plain_storage
        (setTheme (JStr ''light'') (getThemeSession plain_storage ?good))))
      = setTheme (JStr ''light'') (getThemeSession plain_storage ?good)"
    by (simp add: before) (simp add: plain_storage_def setTheme_def session_set_def)
  have committed: "commit plain_storage
      (setTheme (JStr ''light'') (getThemeSession plain_storage ?good)) = ''light''"
    by (simp add: before) (simp add: plain_storage_def setTheme_def session_set_def commit_def)
  have old: "getTheme [''theme'' \<mapsto> JStr ''dark''] = JStr ''dark''"
    by (simp add: getTheme_def session_get_def isTheme_def themes_def)
  have blue: "\<not> isTheme (JStr ''blue'')"
    by (simp add: isTheme_def themes_def)
  from set_then_get [of ?good "[(''theme'', JStr ''light'')]" "JStr ''light''" LIGHT plain_storage]
  obtain resp where
    "setThemeAction plain_storage ?good = Inr resp"
    "location resp = ''/settings''" "set_cookie resp = Some ''light''"
    "getTheme (getThemeSession plain_storage (subsequent_request ?good resp)) = JStr ''light''"
    using round committed by auto
  moreover have "setThemeAction plain_storage ?good
      = Inr \<lparr>status = 302, location = ''/settings'', set_cookie = Some ''light''\<rparr>"
    using committed by (simp add: setThemeAction_def data_or_theme_def isTheme_def themes_def redirect_def)
  ultimately have 1: "setThemeAction plain_storage ?good
      = Inr \<lparr>status = 302, location = ''/settings'', set_cookie = Some ''light''\<rparr>"
    and 2: "getTheme (getThemeSession plain_storage (subsequent_request ?good
        \<lparr>status = 302, location = ''/settings'', set_cookie = Some ''light''\<rparr>)) = JStr ''light''"
    by simp_all
  from set_then_get [of ?bad "[(''theme'', JStr ''blue'')]" "JStr ''blue''" LIGHT plain_storage]
  obtain resp' where
    "setThemeAction plain_storage ?bad = Inr resp'" "set_cookie resp' = None"
    "getTheme (getThemeSession plain_storage (subsequent_request ?bad resp')) = JStr ''dark''"
    using blue before old by auto
  moreover have "setThemeAction plain_storage ?bad
      = Inr \<lparr>status = 302, location = ''/settings'', set_cookie = None\<rparr>"
    by (simp add: setThemeAction_def data_or_theme_def isTheme_def themes_def redirect_def)
  ultimately have 3: "setThemeAction plain_storage ?bad
      = Inr \<lparr>status = 302, location = ''/settings'', set_cookie = None\<rparr>"
    and 4: "getTheme (getThemeSession plain_storage (subsequent_request ?bad
        \<lparr>status = 302, location = ''/settings'', set_cookie = None\<rparr>)) = JStr ''dark''"
    by simp_all
  from 1 2 3 4 show ?thesis by blast
qed

section \<open>Properties of the theme script\<close>

text \<open>
  Claim C8. Inside a provider, for every current theme and every server theme of type
  \<open>Theme | null\<close>, \<open>SSRTheme\<close> renders the \<open>color-scheme\<close> meta element first, with the
  content \<open>light dark\<close> when the current theme is \<open>light\<close> and \<open>dark light\<close> when it is
  \<open>dark\<close> or \<open>null\<close>, and after it the inline script exactly when the server theme is
  \<open>null\<close>.
\<close>

theorem SSRTheme_renders:
  "SSRTheme (Some (theme_or_null theme)) (theme_or_null ssrTheme)
     = Inr (Meta ''color-scheme'' (if theme = Some LIGHT then ''light dark'' else ''dark light'')
            # (if ssrTheme = None then [Script ssrThemeScript] else []))"
proof -
  have t: "(truthy (theme_or_null theme) \<and> theme_or_null theme \<noteq> JStr ''dark'')
      = (theme = Some LIGHT)"
  proof (cases theme)
    case None
    then show ?thesis by simp
  next
    case (Some t)
    then show ?thesis by (cases t) simp_all
  qed
  have s: "truthy (theme_or_null ssrTheme) = (ssrTheme \<noteq> None)"
  proof (cases ssrTheme)
    case None
    then show ?thesis by simp
  next
    case (Some t)
    then show ?thesis by (cases t) simp_all
  qed
  show ?thesis
    unfolding SSRTheme_def useTheme_def by (simp add: t s)
qed

text \<open>No theme at all, both themes \<open>light\<close>, a client theme only, and two different themes.\<close>

theorem SSRTheme_renders_witness:
  "SSRTheme (Some JNull) JNull = Inr [Meta ''color-scheme'' ''dark light'', Script ssrThemeScript]
   \<and> SSRTheme (Some (JStr ''light'')) (JStr ''light'') = Inr [Meta ''color-scheme'' ''light dark'']
   \<and> SSRTheme (Some (JStr ''dark'')) JNull
       = Inr [Meta ''color-scheme'' ''dark light'', Script ssrThemeScript]
   \<and> SSRTheme (Some (JStr ''light'')) (JStr ''dark'') = Inr [Meta ''color-scheme'' ''light dark'']"
  using SSRTheme_renders [of None None] SSRTheme_renders [of "Some LIGHT" "Some LIGHT"]
    SSRTheme_renders [of "Some DARK" None] SSRTheme_renders [of "Some LIGHT" "Some DARK"]
  by simp

end
